theory Spec2Isabelle
  imports Main "HOL-Library.Char_ord" "HOL-Library.List_Lexorder" "HOL-Library.Word"
begin

section \<open>The knowledge graph service of the snippet manager\<close>

text \<open>
  A shallow embedding of \<^verbatim>\<open>KnowledgeGraphService\<close> (\<^verbatim>\<open>_getPairKey\<close>, \<^verbatim>\<open>learn\<close>,
  \<^verbatim>\<open>_incrementStat\<close>, \<^verbatim>\<open>predict\<close>) and of the three IndexedDB object stores it works on
  (\<^verbatim>\<open>tags\<close>, \<^verbatim>\<open>tag_stats\<close>, \<^verbatim>\<open>domain_stats\<close>).

  Conventions of the model:
  \<^item> a JavaScript string is a \<^typ>\<open>string\<close>; its characters are compared by their code, as
    the code units of a JavaScript string are (the tag syntax \<^verbatim>\<open>#[\w-]+\<close> admits ASCII
    letters, digits, \<^verbatim>\<open>_\<close> and \<^verbatim>\<open>-\<close> only);
  \<^item> a counter of the program (\<^verbatim>\<open>count\<close>, a value of \<^verbatim>\<open>tagCounts\<close>, a score) is an
    \<^typ>\<open>int\<close>: the counters are integers, far below \<^verbatim>\<open>2^53\<close>;
  \<^item> a number given as a tag is \<^verbatim>\<open>NaN\<close> or an integer \<open>n\<close> with \<^verbatim>\<open>-2^53 <= n < 2^53\<close>, a
    signed word of 54 bits read by \<^const>\<open>sint\<close>: each of them is a number of JavaScript, and
    \<^verbatim>\<open>ToString\<close> writes it as its decimal numeral. Fractions, numbers beyond that range and the
    infinities are not values of the model;
  \<^item> \<^verbatim>\<open>Date.now()\<close> is an argument of \<^verbatim>\<open>learn\<close>: the reading of the clock during the call;
  \<^item> the database is open (\<^verbatim>\<open>Database.get()\<close> returns the cached handle), and a call
    runs alone in its transaction;
  \<^item> a tag name that is also the name of a property of \<^verbatim>\<open>Object.prototype\<close>
    (\<^verbatim>\<open>constructor\<close>, \<^verbatim>\<open>__proto__\<close>, ...) is outside the model of the \<^verbatim>\<open>tagCounts\<close> object.
\<close>

subsection \<open>JavaScript values\<close>

text \<open>The values a caller can put in the \<^verbatim>\<open>tags\<close> array, as far as the model goes.\<close>

datatype jsval = JUndefined | JNull | JBool bool | JNaN | JNum "54 word" | JStr string

definition digit_char :: "nat \<Rightarrow> char" where
  "digit_char d = ''0123456789'' ! (d mod 10)"

fun nat_to_str :: "nat \<Rightarrow> string" where
  "nat_to_str n =
     (if n < 10 then [digit_char n] else nat_to_str (n div 10) @ [digit_char (n mod 10)])"

declare nat_to_str.simps [simp del]

definition int_to_str :: "int \<Rightarrow> string" where
  "int_to_str i = (if i < 0 then CHR ''-'' # nat_to_str (nat (- i)) else nat_to_str (nat i))"

text \<open>\<^verbatim>\<open>ToString\<close>: what the default \<^verbatim>\<open>sort\<close> compares and what a property key is.\<close>

fun to_string :: "jsval \<Rightarrow> string" where
  "to_string JUndefined = ''undefined''"
| "to_string JNull = ''null''"
| "to_string (JBool b) = (if b then ''true'' else ''false'')"
| "to_string JNaN = ''NaN''"
| "to_string (JNum w) = int_to_str (sint w)"
| "to_string (JStr s) = s"

text \<open>What \<^verbatim>\<open>Array.prototype.join\<close> writes for an element: nothing for
  \<^verbatim>\<open>undefined\<close> and \<^verbatim>\<open>null\<close>.\<close>

fun join_elem :: "jsval \<Rightarrow> string" where
  "join_elem JUndefined = []"
| "join_elem JNull = []"
| "join_elem v = to_string v"

text \<open>\<^verbatim>\<open>[x, y].sort()\<close>: the default comparison puts \<^verbatim>\<open>undefined\<close> last and compares
  everything else as strings; the sort is stable, so the two elements are exchanged only
  when the second is strictly smaller.\<close>

definition sort2 :: "jsval \<Rightarrow> jsval \<Rightarrow> jsval \<times> jsval" where
  "sort2 x y =
     (if y = JUndefined then (x, y)
      else if x = JUndefined then (y, x)
      else if to_string y < to_string x then (y, x)
      else (x, y))"

text \<open>\<^verbatim>\<open>_getPairKey(tagA, tagB) { return [tagA, tagB].sort().join('_'); }\<close>\<close>

definition getPairKey :: "jsval \<Rightarrow> jsval \<Rightarrow> string" where
  "getPairKey tagA tagB =
     (case sort2 tagA tagB of (x, y) \<Rightarrow> join_elem x @ ''_'' @ join_elem y)"

subsection \<open>The object stores\<close>

text \<open>The records of the three stores. The key of a record is its \<^verbatim>\<open>keyPath\<close> field:
  \<^verbatim>\<open>name\<close>, \<^verbatim>\<open>pair\<close>, \<^verbatim>\<open>domain\<close>.\<close>

record tag =
  name :: jsval
  created :: nat
  parent :: jsval
  color :: jsval

record stat =
  pair :: string
  count :: int
  lastSeen :: nat

record domain_profile =
  domain :: string
  tagCounts :: "(string \<times> int) list"

text \<open>
  \<^verbatim>\<open>tags\<close> and \<^verbatim>\<open>domain_stats\<close> are only read and written by key: they are maps.
  \<^verbatim>\<open>tag_stats\<close> is also read whole by \<^verbatim>\<open>getAll()\<close>, which returns the records in the
  order of their keys: it is the list of its records, kept in that order by \<open>put_stat\<close>.
  \<^verbatim>\<open>tagCounts\<close> is a JavaScript object: the list of its properties in creation order.
\<close>

record store =
  tags :: "jsval \<rightharpoonup> tag"
  tag_stats :: "stat list"
  domain_stats :: "string \<rightharpoonup> domain_profile"

definition empty_store :: store where
  "empty_store = \<lparr>tags = Map.empty, tag_stats = [], domain_stats = Map.empty\<rparr>"

text \<open>\<^verbatim>\<open>statStore.get(key)\<close>\<close>

fun get_stat :: "stat list \<Rightarrow> string \<Rightarrow> stat option" where
  "get_stat [] k = None"
| "get_stat (r # rs) k = (if pair r = k then Some r else get_stat rs k)"

text \<open>\<^verbatim>\<open>statStore.put(item)\<close>: replaces the record of the same key, or inserts the
  record at the place of its key.\<close>

fun put_stat :: "stat \<Rightarrow> stat list \<Rightarrow> stat list" where
  "put_stat item [] = [item]"
| "put_stat item (r # rs) =
     (if pair r = pair item then item # rs
      else if pair item < pair r then item # r # rs
      else r # put_stat item rs)"

text \<open>IndexedDB takes numbers other than \<^verbatim>\<open>NaN\<close> and strings as keys, and throws
  \<^verbatim>\<open>DataError\<close> on \<^verbatim>\<open>undefined\<close>, \<^verbatim>\<open>null\<close>, booleans and \<^verbatim>\<open>NaN\<close>.\<close>

fun valid_key :: "jsval \<Rightarrow> bool" where
  "valid_key (JNum _) = True"
| "valid_key (JStr _) = True"
| "valid_key _ = False"

datatype error = DataError

datatype outcome = Resolved | Rejected error

subsection \<open>learn\<close>

text \<open>
  The body of \<^verbatim>\<open>learn\<close> only issues \<^verbatim>\<open>get\<close> requests; every \<^verbatim>\<open>put\<close> is issued by the
  \<^verbatim>\<open>onsuccess\<close> callback of a \<^verbatim>\<open>get\<close>. A transaction runs its requests in the order they
  were issued, so every \<^verbatim>\<open>get\<close> of a call is answered before the first \<^verbatim>\<open>put\<close> of the call
  is run: the callbacks read the store as it was when the call started (\<open>db\<close> below) and
  write one after the other.
\<close>

text \<open>Step 1, the callback of \<^verbatim>\<open>tagStore.get(tagName)\<close>:
  \<^verbatim>\<open>if (!req.result) tagStore.put({ name: tagName, created: Date.now(), parent: null, color: null })\<close>\<close>

definition register_tag :: "(jsval \<rightharpoonup> tag) \<Rightarrow> nat \<Rightarrow> (jsval \<rightharpoonup> tag) \<Rightarrow> jsval \<Rightarrow> (jsval \<rightharpoonup> tag)" where
  "register_tag db_tags now ts tagName =
     (case db_tags tagName of
        None \<Rightarrow> ts(tagName \<mapsto> \<lparr>name = tagName, created = now, parent = JNull, color = JNull\<rparr>)
      | Some _ \<Rightarrow> ts)"

text \<open>\<^verbatim>\<open>_incrementStat(store, key)\<close>: the callback of \<^verbatim>\<open>store.get(key)\<close>
  \<^verbatim>\<open>
  const item = req.result || { pair: key, count: 0, lastSeen: 0 };
  item.count++; item.lastSeen = Date.now(); store.put(item);
  \<close>\<close>

definition incrementStat :: "stat list \<Rightarrow> nat \<Rightarrow> stat list \<Rightarrow> string \<Rightarrow> stat list" where
  "incrementStat db_stats now st key =
     (let item = (case get_stat db_stats key of
                    Some r \<Rightarrow> r
                  | None \<Rightarrow> \<lparr>pair = key, count = 0, lastSeen = 0\<rparr>)
      in put_stat (item\<lparr>count := count item + 1, lastSeen := now\<rparr>) st)"

text \<open>Step 2, the two loops \<^verbatim>\<open>for i\<close>, \<^verbatim>\<open>for j = i + 1\<close>: the keys in the order the
  requests are issued.\<close>

fun pair_keys :: "jsval list \<Rightarrow> string list" where
  "pair_keys [] = []"
| "pair_keys (t # ts) = map (getPairKey t) ts @ pair_keys ts"

text \<open>The names every object inherits from \<^verbatim>\<open>Object.prototype\<close>. For such a name
  \<^verbatim>\<open>data.tagCounts[t]\<close> reads the inherited value, not a count: these names are outside
  the model of \<^verbatim>\<open>tagCounts\<close>, and a statement about counts leaves them out.\<close>

definition object_prototype_names :: "string list" where
  "object_prototype_names =
     [''constructor'', ''__proto__'', ''hasOwnProperty'', ''isPrototypeOf'',
      ''propertyIsEnumerable'', ''toLocaleString'', ''toString'', ''valueOf'',
      ''__defineGetter__'', ''__defineSetter__'', ''__lookupGetter__'', ''__lookupSetter__'']"

text \<open>Step 3, \<^verbatim>\<open>data.tagCounts[t] = (data.tagCounts[t] || 0) + 1\<close> for a name that is
  not inherited: an existing property keeps its place, a new one is created last.\<close>

fun bump :: "(string \<times> int) list \<Rightarrow> string \<Rightarrow> (string \<times> int) list" where
  "bump [] k = [(k, 1)]"
| "bump ((k', v) # kvs) k = (if k' = k then (k', v + 1) # kvs else (k', v) # bump kvs k)"

text \<open>\<^verbatim>\<open>if (domain) { ... }\<close>: the domain is neither absent nor the empty string.\<close>

definition learn_domain :: "(string \<rightharpoonup> domain_profile) \<Rightarrow> jsval list \<Rightarrow> string option \<Rightarrow> (string \<rightharpoonup> domain_profile)" where
  "learn_domain db_domains tgs dmn =
     (case dmn of
        None \<Rightarrow> db_domains
      | Some d \<Rightarrow>
          if d = [] then db_domains
          else
            let data = (case db_domains d of
                          Some r \<Rightarrow> r
                        | None \<Rightarrow> \<lparr>domain = d, tagCounts = []\<rparr>)
            in db_domains(d \<mapsto> data\<lparr>tagCounts := foldl bump (tagCounts data) (map to_string tgs)\<rparr>))"

text \<open>
  \<^verbatim>\<open>learn(tags, domain)\<close>. \<^verbatim>\<open>tagStore.get\<close> throws on the first tag that is not a valid
  key: the call is rejected there, and the requests issued before it still run and the
  transaction commits them.
\<close>

definition learn :: "store \<Rightarrow> jsval list \<Rightarrow> string option \<Rightarrow> nat \<Rightarrow> outcome \<times> store" where
  "learn db tgs dmn now =
     (if tgs = [] then (Resolved, db)
      else if \<not> list_all valid_key tgs then
        (Rejected DataError,
         db\<lparr>tags := foldl (register_tag (tags db) now) (tags db) (takeWhile valid_key tgs)\<rparr>)
      else
        (Resolved,
         \<lparr>tags = foldl (register_tag (tags db) now) (tags db) tgs,
          tag_stats = foldl (incrementStat (tag_stats db) now) (tag_stats db) (pair_keys tgs),
          domain_stats = learn_domain (domain_stats db) tgs dmn\<rparr>))"

subsection \<open>predict\<close>

text \<open>\<^verbatim>\<open>scores\<close> is a JavaScript \<^verbatim>\<open>Map\<close>: the list of its entries in insertion order.
  \<^verbatim>\<open>set\<close> on a key of the map keeps the place of the entry, on a new key it adds the
  entry last; \<^verbatim>\<open>delete\<close> removes the entry.\<close>

type_synonym scores = "(jsval \<times> int) list"

text \<open>\<^verbatim>\<open>scores.get(k) || 0\<close>\<close>

definition scores_get :: "scores \<Rightarrow> jsval \<Rightarrow> int" where
  "scores_get sc k = (case map_of sc k of Some v \<Rightarrow> v | None \<Rightarrow> 0)"

fun scores_set :: "scores \<Rightarrow> jsval \<Rightarrow> int \<Rightarrow> scores" where
  "scores_set [] k v = [(k, v)]"
| "scores_set ((k', v') # es) k v =
     (if k' = k then (k', v) # es else (k', v') # scores_set es k v)"

text \<open>\<^verbatim>\<open>scores.set(k, (scores.get(k) || 0) + n)\<close>\<close>

definition award :: "scores \<Rightarrow> jsval \<Rightarrow> int \<Rightarrow> scores" where
  "award sc k n = scores_set sc k (scores_get sc k + n)"

definition scores_delete :: "scores \<Rightarrow> jsval \<Rightarrow> scores" where
  "scores_delete sc k = filter (\<lambda>e. fst e \<noteq> k) sc"

text \<open>\<^verbatim>\<open>.sort((a, b) => b[1] - a[1])\<close>: a stable sort by decreasing second component.\<close>

definition sort_desc :: "('a \<times> int) list \<Rightarrow> ('a \<times> int) list" where
  "sort_desc es = sort_key (\<lambda>e. - snd e) es"

text \<open>\<^verbatim>\<open>Object.entries\<close> lists the properties whose name is an array index (the decimal
  numeral of a number below \<^verbatim>\<open>2^32 - 1\<close>) first, in the order of their numbers, and the others
  after them in creation order.\<close>

definition is_digit :: "char \<Rightarrow> bool" where
  "is_digit c = (c \<in> set ''0123456789'')"

definition str_to_int :: "string \<Rightarrow> int" where
  "str_to_int s = foldl (\<lambda>a c. 10 * a + (of_char c - 48)) 0 s"

definition is_array_index :: "string \<Rightarrow> bool" where
  "is_array_index s =
     (s \<noteq> [] \<and> list_all is_digit s \<and> (s = ''0'' \<or> hd s \<noteq> CHR ''0'')
      \<and> str_to_int s < 4294967295)"

definition object_entries :: "(string \<times> int) list \<Rightarrow> (string \<times> int) list" where
  "object_entries obj =
     sort_key (\<lambda>e. str_to_int (fst e)) (filter (\<lambda>e. is_array_index (fst e)) obj)
     @ filter (\<lambda>e. \<not> is_array_index (fst e)) obj"

text \<open>A. \<^verbatim>\<open>Object.entries(req.result.tagCounts).sort(...).slice(0, 3).forEach(([tag]) =>
  scores.set(tag, (scores.get(tag) || 0) + 5))\<close>, run when \<^verbatim>\<open>domain\<close> is truthy and has a
  profile.\<close>

definition domain_scores :: "store \<Rightarrow> string option \<Rightarrow> scores \<Rightarrow> scores" where
  "domain_scores db dmn sc =
     (case dmn of
        None \<Rightarrow> sc
      | Some d \<Rightarrow>
          if d = [] then sc
          else (case domain_stats db d of
                  None \<Rightarrow> sc
                | Some r \<Rightarrow>
                    foldl (\<lambda>sc' e. award sc' (JStr (fst e)) 5) sc
                      (take 3 (sort_desc (object_entries (tagCounts r))))))"

text \<open>\<^verbatim>\<open>stat.pair.split('_')\<close>\<close>

fun split_underscore :: "string \<Rightarrow> string list" where
  "split_underscore [] = [[]]"
| "split_underscore (c # cs) =
     (if c = CHR ''_'' then [] # split_underscore cs
      else (case split_underscore cs of
              [] \<Rightarrow> [[c]]
            | w # ws \<Rightarrow> (c # w) # ws))"

text \<open>\<^verbatim>\<open>const [tagA, tagB] = ...\<close>: an element the array does not have is
  \<^verbatim>\<open>undefined\<close>.\<close>

definition element :: "string list \<Rightarrow> nat \<Rightarrow> jsval" where
  "element parts i = (if i < length parts then JStr (parts ! i) else JUndefined)"

text \<open>B. the body of \<^verbatim>\<open>allStats.forEach(stat => ...)\<close>\<close>

definition assoc_step :: "jsval list \<Rightarrow> scores \<Rightarrow> stat \<Rightarrow> scores" where
  "assoc_step currentTags sc st =
     (let parts = split_underscore (pair st);
          tagA = element parts 0;
          tagB = element parts 1;
          hasA = (tagA \<in> set currentTags);
          hasB = (tagB \<in> set currentTags)
      in if hasA \<and> \<not> hasB then award sc tagB (count st)
         else if \<not> hasA \<and> hasB then award sc tagA (count st)
         else sc)"

definition assoc_scores :: "store \<Rightarrow> jsval list \<Rightarrow> scores \<Rightarrow> scores" where
  "assoc_scores db currentTags sc =
     (if currentTags \<noteq> [] then foldl (assoc_step currentTags) sc (tag_stats db) else sc)"

text \<open>\<^verbatim>\<open>predict(currentTags, domain)\<close>: the two signals, then
  \<^verbatim>\<open>currentTags.forEach(t => scores.delete(t))\<close> and
  \<^verbatim>\<open>Array.from(scores.entries()).sort((a, b) => b[1] - a[1]).map(entry => entry[0]).slice(0, 5)\<close>.\<close>

definition predict :: "store \<Rightarrow> jsval list \<Rightarrow> string option \<Rightarrow> jsval list" where
  "predict db currentTags dmn =
     (let scoresA = domain_scores db dmn [];
          scoresB = assoc_scores db currentTags scoresA;
          scoresC = foldl scores_delete scoresB currentTags
      in take 5 (map fst (sort_desc scoresC)))"

section \<open>Properties\<close>

subsection \<open>Reading the pair store after a write\<close>

lemma get_stat_put_stat:
  "get_stat (put_stat item rs) k = (if k = pair item then Some item else get_stat rs k)"
  by (induction rs) auto

lemma pair_get_stat: "get_stat rs k = Some r \<Longrightarrow> pair r = k"
  by (induction rs) (auto split: if_splits)

lemma get_stat_incrementStat_other:
  "k \<noteq> key \<Longrightarrow> get_stat (incrementStat db_stats now st key) k = get_stat st k"
  by (auto simp: incrementStat_def Let_def get_stat_put_stat dest: pair_get_stat
      split: option.splits)

lemma get_stat_foldl_incrementStat_other:
  "k \<notin> set ks \<Longrightarrow> get_stat (foldl (incrementStat db_stats now) st ks) k = get_stat st k"
  by (induction ks arbitrary: st) (auto simp: get_stat_incrementStat_other)

lemma pair_keys_mem:
  "distinct ts \<Longrightarrow> k \<in> set (pair_keys ts) \<Longrightarrow>
     \<exists>a\<in>set ts. \<exists>b\<in>set ts. a \<noteq> b \<and> k = getPairKey a b"
proof (induction ts)
  case Nil
  then show ?case by simp
next
  case (Cons t ts)
  from Cons.prems(2) consider (head) "k \<in> getPairKey t ` set ts" | (tail) "k \<in> set (pair_keys ts)"
    by auto
  then show ?case
  proof cases
    case head
    then obtain b where "b \<in> set ts" "k = getPairKey t b" by blast
    moreover from Cons.prems(1) \<open>b \<in> set ts\<close> have "t \<noteq> b" by auto
    ultimately show ?thesis by auto
  next
    case tail
    with Cons show ?thesis by fastforce
  qed
qed

subsection \<open>Empty input and the size of the result\<close>

text \<open>
  C8. \<^verbatim>\<open>learn\<close> with an empty tag array, with or without a domain, resolves and leaves
  every store as it was: no tag, no pair counter, no domain profile is written.
\<close>

theorem learn_empty_noop: "learn db [] dmn now = (Resolved, db)"
  by (simp add: learn_def)

text \<open>
  C7. For every store, every \<^verbatim>\<open>currentTags\<close> and every domain, \<^verbatim>\<open>predict\<close> returns at
  most five entries.
\<close>

theorem predict_at_most_five: "length (predict db currentTags dmn) \<le> 5"
  by (simp add: predict_def Let_def)

subsection \<open>The keys of the score map\<close>

lemma foldl_scores_delete:
  "foldl scores_delete sc ts = filter (\<lambda>e. fst e \<notin> set ts) sc"
  by (induction ts arbitrary: sc) (auto simp: scores_delete_def intro: filter_cong)

lemma set_sort_desc: "set (sort_desc es) = set es"
  by (simp add: sort_desc_def)

lemma distinct_keys_sort_desc:
  "distinct (map fst (sort_desc es)) = distinct (map fst es)"
  by (simp add: sort_desc_def distinct_map)

lemma keys_scores_set:
  "map fst (scores_set sc k v) = (if k \<in> fst ` set sc then map fst sc else map fst sc @ [k])"
  by (induction sc) force+

lemma distinct_keys_scores_set:
  "distinct (map fst sc) \<Longrightarrow> distinct (map fst (scores_set sc k v))"
  by (simp add: keys_scores_set)

lemma distinct_keys_award:
  "distinct (map fst sc) \<Longrightarrow> distinct (map fst (award sc k n))"
  by (simp add: award_def distinct_keys_scores_set)

lemma distinct_keys_foldl_award:
  "distinct (map fst sc) \<Longrightarrow> distinct (map fst (foldl (\<lambda>sc' e. award sc' (f e) n) sc es))"
  by (induction es arbitrary: sc) (simp_all add: distinct_keys_award)

lemma distinct_keys_domain_scores:
  "distinct (map fst sc) \<Longrightarrow> distinct (map fst (domain_scores db dmn sc))"
  by (simp add: domain_scores_def distinct_keys_foldl_award split: option.splits)

lemma distinct_keys_assoc_step:
  "distinct (map fst sc) \<Longrightarrow> distinct (map fst (assoc_step currentTags sc st))"
  by (simp add: assoc_step_def Let_def distinct_keys_award)

lemma distinct_keys_foldl_assoc_step:
  "distinct (map fst sc) \<Longrightarrow> distinct (map fst (foldl (assoc_step currentTags) sc sts))"
  by (induction sts arbitrary: sc) (simp_all add: distinct_keys_assoc_step)

lemma distinct_keys_assoc_scores:
  "distinct (map fst sc) \<Longrightarrow> distinct (map fst (assoc_scores db currentTags sc))"
  by (simp add: assoc_scores_def distinct_keys_foldl_assoc_step)

lemma distinct_keys_filter:
  "distinct (map fst sc) \<Longrightarrow> distinct (map fst (filter P sc))"
  by (simp add: distinct_map_filter)

text \<open>
  C10. For every store, every \<^verbatim>\<open>currentTags\<close> and every domain, the result of \<^verbatim>\<open>predict\<close>
  has no tag twice: the two signals add into one entry per tag of the score map.
\<close>

theorem predict_distinct: "distinct (predict db currentTags dmn)"
proof -
  have "distinct (map fst (domain_scores db dmn []))"
    by (rule distinct_keys_domain_scores) simp
  then have "distinct (map fst (assoc_scores db currentTags (domain_scores db dmn [])))"
    by (rule distinct_keys_assoc_scores)
  then have "distinct (map fst (foldl scores_delete
      (assoc_scores db currentTags (domain_scores db dmn [])) currentTags))"
    by (simp only: foldl_scores_delete distinct_keys_filter)
  then show ?thesis
    by (simp add: predict_def Let_def distinct_keys_sort_desc)
qed

text \<open>
  C6. For every store, every \<^verbatim>\<open>currentTags\<close> and every domain, no element of
  \<^verbatim>\<open>currentTags\<close> is in the result of \<^verbatim>\<open>predict\<close>, whatever score it had; and after
  \<^verbatim>\<open>learn(['soep', 'balletjes'])\<close> on the empty store,
  \<^verbatim>\<open>predict(['soep', 'balletjes'], null)\<close> is empty.
\<close>

theorem predict_excludes_current_tags:
  "set (predict db currentTags dmn) \<inter> set currentTags = {}
   \<and> predict (snd (learn empty_store [JStr ''soep'', JStr ''balletjes''] None now))
         [JStr ''soep'', JStr ''balletjes''] None = []"
proof
  have "set (predict db currentTags dmn)
      \<subseteq> fst ` set (foldl scores_delete
          (assoc_scores db currentTags (domain_scores db dmn [])) currentTags)"
    unfolding predict_def Let_def
    using set_take_subset [of 5] by (fastforce simp: set_sort_desc)
  also have "\<dots> \<inter> set currentTags = {}"
    by (auto simp: foldl_scores_delete)
  finally show "set (predict db currentTags dmn) \<inter> set currentTags = {}" by blast
next
  show "predict (snd (learn empty_store [JStr ''soep'', JStr ''balletjes''] None now))
         [JStr ''soep'', JStr ''balletjes''] None = []"
    by (simp add: predict_def learn_def empty_store_def domain_scores_def assoc_scores_def
        assoc_step_def incrementStat_def getPairKey_def sort2_def element_def
        scores_delete_def sort_desc_def Let_def)
qed

subsection \<open>Pair keys and what learn writes\<close>

lemmas learn_eval = learn_def empty_store_def incrementStat_def getPairKey_def sort2_def
  register_tag_def learn_domain_def Let_def

lemmas predict_eval = predict_def domain_scores_def assoc_scores_def assoc_step_def
  element_def award_def scores_get_def scores_delete_def sort_desc_def

lemma getPairKey_commute:
  "to_string x \<noteq> to_string y \<Longrightarrow> x \<noteq> JUndefined \<Longrightarrow> y \<noteq> JUndefined
     \<Longrightarrow> getPairKey x y = getPairKey y x"
  by (auto simp: getPairKey_def sort2_def)

lemma learn_swap:
  assumes "a \<noteq> b"
  shows "learn db [JStr a, JStr b] None now = learn db [JStr b, JStr a] None now"
proof -
  have "getPairKey (JStr a) (JStr b) = getPairKey (JStr b) (JStr a)"
    using assms by (simp add: getPairKey_commute)
  moreover have "foldl (register_tag (tags db) now) (tags db) [JStr a, JStr b]
      = foldl (register_tag (tags db) now) (tags db) [JStr b, JStr a]"
    using assms by (auto simp: register_tag_def fun_upd_twist split: option.splits)
  ultimately show ?thesis
    by (simp add: learn_def learn_domain_def)
qed

lemma learn_once:
  "learn empty_store [JStr a, JStr b] None t =
    (Resolved, \<lparr>tags = foldl (register_tag Map.empty t) Map.empty [JStr a, JStr b],
       tag_stats = [\<lparr>pair = getPairKey (JStr a) (JStr b), count = 1, lastSeen = t\<rparr>],
       domain_stats = Map.empty\<rparr>)"
  by (simp add: learn_def empty_store_def incrementStat_def learn_domain_def)

lemma learn_twice:
  "tag_stats (snd (learn (snd (learn empty_store [JStr a, JStr b] None t))
       [JStr a, JStr b] None t'))
    = [\<lparr>pair = getPairKey (JStr a) (JStr b), count = 2, lastSeen = t'\<rparr>]"
  by (simp add: learn_once) (simp add: learn_def incrementStat_def)

text \<open>
  C4. From the empty store, \<^verbatim>\<open>learn\<close> with two distinct tags \<open>a\<close>, \<open>b\<close> leaves one pair
  record, of count 1, and a second call makes its count 2; each call may give the tags in
  either order (\<open>o1\<close>, \<open>o2\<close>), and the store it leaves is the one the order \<open>a\<close>, \<open>b\<close>
  leaves.
\<close>

theorem learn_pair_count_order_independent:
  assumes "a \<noteq> b"
    and "o1 \<in> {[JStr a, JStr b], [JStr b, JStr a]}"
    and "o2 \<in> {[JStr a, JStr b], [JStr b, JStr a]}"
  shows "tag_stats (snd (learn empty_store o1 None t))
      = [\<lparr>pair = getPairKey (JStr a) (JStr b), count = 1, lastSeen = t\<rparr>]
    \<and> tag_stats (snd (learn (snd (learn empty_store o1 None t)) o2 None t'))
      = [\<lparr>pair = getPairKey (JStr a) (JStr b), count = 2, lastSeen = t'\<rparr>]
    \<and> learn empty_store o1 None t = learn empty_store [JStr a, JStr b] None t
    \<and> learn (snd (learn empty_store o1 None t)) o2 None t'
      = learn (snd (learn empty_store [JStr a, JStr b] None t)) [JStr a, JStr b] None t'"
proof -
  have o1: "learn db o1 None u = learn db [JStr a, JStr b] None u" for db u
    using assms(1,2) learn_swap [of a b db u] by auto
  have o2: "learn db o2 None u = learn db [JStr a, JStr b] None u" for db u
    using assms(1,3) learn_swap [of a b db u] by auto
  show ?thesis
    by (simp only: o1 o2 learn_twice) (simp add: learn_once)
qed

theorem learn_pair_count_order_independent_witness:
  "''A'' \<noteq> ''B''
   \<and> [JStr ''B'', JStr ''A''] \<in> {[JStr ''A'', JStr ''B''], [JStr ''B'', JStr ''A'']}
   \<and> [JStr ''A'', JStr ''B''] \<in> {[JStr ''A'', JStr ''B''], [JStr ''B'', JStr ''A'']}
   \<and> tag_stats (snd (learn empty_store [JStr ''B'', JStr ''A''] None 1))
      = [\<lparr>pair = ''A_B'', count = 1, lastSeen = 1\<rparr>]
   \<and> tag_stats (snd (learn (snd (learn empty_store [JStr ''B'', JStr ''A''] None 1))
        [JStr ''A'', JStr ''B''] None 2))
      = [\<lparr>pair = ''A_B'', count = 2, lastSeen = 2\<rparr>]
   \<and> learn empty_store [JStr ''B'', JStr ''A''] None 1
      = learn empty_store [JStr ''A'', JStr ''B''] None 1"
proof -
  have h1: "''A'' \<noteq> ''B''" by simp
  have h2: "[JStr ''B'', JStr ''A''] \<in> {[JStr ''A'', JStr ''B''], [JStr ''B'', JStr ''A'']}"
    by simp
  have h3: "[JStr ''A'', JStr ''B''] \<in> {[JStr ''A'', JStr ''B''], [JStr ''B'', JStr ''A'']}"
    by simp
  have k: "getPairKey (JStr ''A'') (JStr ''B'') = ''A_B''"
    by (simp add: getPairKey_def sort2_def)
  from learn_pair_count_order_independent [OF h1 h2 h3, of 1 2] h1 h2 h3 show ?thesis
    unfolding k by blast
qed

text \<open>
  C1, as the code has it. \<^verbatim>\<open>learn\<close> pairs the positions \<open>i < j\<close> of the array and removes
  no duplicate. When no tag is twice in the input, every pair record the call creates or
  changes is the record of two distinct tags of the input.
\<close>

theorem learn_pairs_of_distinct_tags:
  assumes "distinct tgs"
    and "get_stat (tag_stats (snd (learn db tgs dmn now))) k \<noteq> get_stat (tag_stats db) k"
  shows "\<exists>a\<in>set tgs. \<exists>b\<in>set tgs. a \<noteq> b \<and> k = getPairKey a b"
proof -
  have "k \<in> set (pair_keys tgs)"
  proof (rule ccontr)
    assume "k \<notin> set (pair_keys tgs)"
    then have "get_stat (tag_stats (snd (learn db tgs dmn now))) k = get_stat (tag_stats db) k"
      by (simp add: learn_def get_stat_foldl_incrementStat_other)
    with assms(2) show False by simp
  qed
  with assms(1) show ?thesis by (rule pair_keys_mem)
qed

theorem learn_pairs_of_distinct_tags_witness:
  "distinct [JStr ''A'', JStr ''B'']
   \<and> get_stat (tag_stats (snd (learn empty_store [JStr ''A'', JStr ''B''] None 0))) ''A_B''
       \<noteq> get_stat (tag_stats empty_store) ''A_B''
   \<and> JStr ''A'' \<noteq> JStr ''B'' \<and> ''A_B'' = getPairKey (JStr ''A'') (JStr ''B'')"
proof -
  have h1: "distinct [JStr ''A'', JStr ''B'']" by simp
  have h2: "get_stat (tag_stats (snd (learn empty_store [JStr ''A'', JStr ''B''] None 0))) ''A_B''
       \<noteq> get_stat (tag_stats empty_store) ''A_B''"
    by (simp add: learn_eval)
  from learn_pairs_of_distinct_tags [OF h1 h2]
  have "\<exists>a\<in>set [JStr ''A'', JStr ''B'']. \<exists>b\<in>set [JStr ''A'', JStr ''B''].
          a \<noteq> b \<and> ''A_B'' = getPairKey a b" .
  then have "JStr ''A'' \<noteq> JStr ''B'' \<and> ''A_B'' = getPairKey (JStr ''A'') (JStr ''B'')"
    by (auto simp: getPairKey_def sort2_def)
  with h1 h2 show ?thesis by blast
qed

text \<open>C1 as stated fails on \<^verbatim>\<open>learn(['A', 'A'])\<close>: on the empty store the call creates
  the pair record of \<^verbatim>\<open>A\<close> with itself.\<close>

theorem learn_duplicate_tag_self_pair:
  "tag_stats (snd (learn empty_store [JStr ''A'', JStr ''A''] None 0))
     = [\<lparr>pair = ''A_A'', count = 1, lastSeen = 0\<rparr>]"
  by (simp add: learn_eval)

text \<open>A key that two pairs of one call share is read twice before it is written: its
  counter goes up by one, not by two.\<close>

lemma learn_repeated_key_written_once:
  "tag_stats (snd (learn empty_store [JStr ''A'', JStr ''A'', JStr ''B''] None 0))
     = [\<lparr>pair = ''A_A'', count = 1, lastSeen = 0\<rparr>,
        \<lparr>pair = ''A_B'', count = 1, lastSeen = 0\<rparr>]"
  by (simp add: learn_eval)

subsection \<open>Splitting a pair key\<close>

lemma split_underscore_no_sep:
  "CHR ''_'' \<notin> set a \<Longrightarrow> split_underscore a = [a]"
  by (induction a) auto

lemma split_underscore_join:
  "CHR ''_'' \<notin> set a \<Longrightarrow> CHR ''_'' \<notin> set b \<Longrightarrow> split_underscore (a @ ''_'' @ b) = [a, b]"
  by (induction a) (auto simp: split_underscore_no_sep)

text \<open>
  C2. The key of two names is the two names in lexicographic order, joined by \<^verbatim>\<open>_\<close>,
  and \<^verbatim>\<open>predict\<close> takes the first two parts of the key split at \<^verbatim>\<open>_\<close>. The tag syntax
  admits \<^verbatim>\<open>_\<close> in a name, and then the parts are not the names: the key of \<^verbatim>\<open>a_b\<close> and
  \<^verbatim>\<open>c\<close> is also the key of \<^verbatim>\<open>a\<close> and \<^verbatim>\<open>b_c\<close>, it is split into \<^verbatim>\<open>a\<close> and \<^verbatim>\<open>b\<close>, and after
  \<^verbatim>\<open>learn(['a_b', 'c'])\<close> the tag \<^verbatim>\<open>c\<close> suggests nothing while \<^verbatim>\<open>a\<close> suggests \<^verbatim>\<open>b\<close>.
\<close>

theorem pair_key_split_loses_names:
  "getPairKey (JStr ''a_b'') (JStr ''c'') = ''a_b_c''
   \<and> getPairKey (JStr ''a'') (JStr ''b_c'') = ''a_b_c''
   \<and> (element (split_underscore ''a_b_c'') 0, element (split_underscore ''a_b_c'') 1)
       = (JStr ''a'', JStr ''b'')
   \<and> predict (snd (learn empty_store [JStr ''a_b'', JStr ''c''] None 0)) [JStr ''c''] None = []
   \<and> predict (snd (learn empty_store [JStr ''a_b'', JStr ''c''] None 0)) [JStr ''a''] None
       = [JStr ''b'']"
  by (simp add: learn_eval predict_eval)

subsection \<open>Ranking by association\<close>

text \<open>
  C5. From the empty store, after \<^verbatim>\<open>learn(['pasta', 'tomaat'])\<close> three times and
  \<^verbatim>\<open>learn(['pasta', 'basilicum'])\<close> once, \<^verbatim>\<open>predict(['pasta'], null)\<close> is \<^verbatim>\<open>tomaat\<close>, then
  \<^verbatim>\<open>basilicum\<close>, and \<^verbatim>\<open>pasta\<close> is not in it.
\<close>

theorem predict_pasta_ranking:
  "predict
     (snd (learn (snd (learn (snd (learn (snd (learn empty_store
        [JStr ''pasta'', JStr ''tomaat''] None t1))
        [JStr ''pasta'', JStr ''tomaat''] None t2))
        [JStr ''pasta'', JStr ''tomaat''] None t3))
        [JStr ''pasta'', JStr ''basilicum''] None t4))
     [JStr ''pasta''] None
   = [JStr ''tomaat'', JStr ''basilicum'']"
  by (simp add: learn_eval predict_eval)

subsection \<open>The store after the writes of a call\<close>

lemma foldl_register_tag:
  "foldl (register_tag m now) ts xs t =
     (if t \<in> set xs \<and> m t = None
      then Some \<lparr>name = t, created = now, parent = JNull, color = JNull\<rparr>
      else ts t)"
  by (induction xs arbitrary: ts) (auto simp: register_tag_def split: option.splits)

lemma get_stat_incrementStat_same:
  "get_stat (incrementStat db_stats now st key) key =
     Some \<lparr>pair = key,
           count = (case get_stat db_stats key of None \<Rightarrow> 0 | Some r \<Rightarrow> count r) + 1,
           lastSeen = now\<rparr>"
  by (auto simp: incrementStat_def Let_def get_stat_put_stat dest: pair_get_stat
      split: option.splits)

lemma get_stat_foldl_incrementStat:
  "get_stat (foldl (incrementStat db_stats now) st ks) k =
     (if k \<in> set ks
      then Some \<lparr>pair = k,
                 count = (case get_stat db_stats k of None \<Rightarrow> 0 | Some r \<Rightarrow> count r) + 1,
                 lastSeen = now\<rparr>
      else get_stat st k)"
proof (induction ks rule: rev_induct)
  case Nil
  then show ?case by simp
next
  case (snoc x ks)
  show ?case
  proof (cases "k = x")
    case True
    then show ?thesis by (simp add: get_stat_incrementStat_same)
  next
    case False
    with snoc show ?thesis by (simp add: get_stat_incrementStat_other)
  qed
qed

lemma map_of_bump:
  "map_of (bump obj k) k' =
     (if k' = k then Some ((case map_of obj k of None \<Rightarrow> 0 | Some v \<Rightarrow> v) + 1)
      else map_of obj k')"
  by (induction obj) auto

lemma map_of_foldl_bump:
  "map_of (foldl bump obj ks) k =
     (if k \<in> set ks
      then Some ((case map_of obj k of None \<Rightarrow> 0 | Some v \<Rightarrow> v) + int (count_list ks k))
      else map_of obj k)"
proof (induction ks arbitrary: obj)
  case Nil
  then show ?case by simp
next
  case (Cons x ks)
  show ?case
    by (simp add: Cons map_of_bump split: option.splits)
qed


subsection \<open>Tags that are not strings\<close>







subsection \<open>What a call leaves in the store\<close>

text \<open>
  C3, as the code has it, for a call with a tag array that is not empty, on the store the
  transaction of the call leaves. A call that resolves has made all its writes and no
  other: the tags the store did not have are registered, the record of the key of every
  two positions \<open>i < j\<close> has the count it had before the call plus one (1 when there was no
  record), and with a domain the profile of the domain exists and counts every tag (of a
  name not inherited from \<^verbatim>\<open>Object.prototype\<close>) as many times more as it is in the array.
  A call that does not resolve is rejected with \<^verbatim>\<open>DataError\<close>; it has written no pair counter
  and no domain profile, and it has registered the tags before the first one that is not a
  valid key.
\<close>

theorem learn_all_writes_or_leading_tags:
  assumes "tgs \<noteq> []"
  shows
    "(fst (learn db tgs dmn now) = Resolved \<longrightarrow>
        (\<forall>t. tags (snd (learn db tgs dmn now)) t =
           (if t \<in> set tgs \<and> tags db t = None
            then Some \<lparr>name = t, created = now, parent = JNull, color = JNull\<rparr>
            else tags db t))
      \<and> (\<forall>k. get_stat (tag_stats (snd (learn db tgs dmn now))) k =
           (if k \<in> set (pair_keys tgs)
            then Some \<lparr>pair = k,
                       count = (case get_stat (tag_stats db) k of None \<Rightarrow> 0 | Some r \<Rightarrow> count r) + 1,
                       lastSeen = now\<rparr>
            else get_stat (tag_stats db) k))
      \<and> (\<forall>d. dmn = Some d \<and> d \<noteq> [] \<longrightarrow>
           (\<exists>p. domain_stats (snd (learn db tgs dmn now)) d = Some p
              \<and> (\<forall>t\<in>set tgs. to_string t \<notin> set object_prototype_names \<longrightarrow>
                   map_of (tagCounts p) (to_string t) =
                     Some ((case domain_stats db d of
                              None \<Rightarrow> 0
                            | Some q \<Rightarrow> (case map_of (tagCounts q) (to_string t) of
                                          None \<Rightarrow> 0 | Some v \<Rightarrow> v))
                           + int (count_list (map to_string tgs) (to_string t)))))))
   \<and> (fst (learn db tgs dmn now) \<noteq> Resolved \<longrightarrow>
        fst (learn db tgs dmn now) = Rejected DataError
      \<and> tag_stats (snd (learn db tgs dmn now)) = tag_stats db
      \<and> domain_stats (snd (learn db tgs dmn now)) = domain_stats db
      \<and> (\<forall>t. tags (snd (learn db tgs dmn now)) t =
           (if t \<in> set (takeWhile valid_key tgs) \<and> tags db t = None
            then Some \<lparr>name = t, created = now, parent = JNull, color = JNull\<rparr>
            else tags db t)))"
proof (cases "list_all valid_key tgs")
  case True
  with assms have l: "learn db tgs dmn now =
      (Resolved,
       \<lparr>tags = foldl (register_tag (tags db) now) (tags db) tgs,
        tag_stats = foldl (incrementStat (tag_stats db) now) (tag_stats db) (pair_keys tgs),
        domain_stats = learn_domain (domain_stats db) tgs dmn\<rparr>)"
    by (simp add: learn_def)
  have dom: "\<exists>p. learn_domain (domain_stats db) tgs dmn d = Some p
      \<and> (\<forall>t\<in>set tgs. to_string t \<notin> set object_prototype_names \<longrightarrow>
           map_of (tagCounts p) (to_string t) =
             Some ((case domain_stats db d of
                      None \<Rightarrow> 0
                    | Some q \<Rightarrow> (case map_of (tagCounts q) (to_string t) of
                                  None \<Rightarrow> 0 | Some v \<Rightarrow> v))
                   + int (count_list (map to_string tgs) (to_string t))))"
    if "dmn = Some d" "d \<noteq> []" for d
    using that by (auto simp: learn_domain_def Let_def map_of_foldl_bump split: option.splits)
  have "\<forall>d. dmn = Some d \<and> d \<noteq> [] \<longrightarrow>
      (\<exists>p. learn_domain (domain_stats db) tgs dmn d = Some p
      \<and> (\<forall>t\<in>set tgs. to_string t \<notin> set object_prototype_names \<longrightarrow>
           map_of (tagCounts p) (to_string t) =
             Some ((case domain_stats db d of
                      None \<Rightarrow> 0
                    | Some q \<Rightarrow> (case map_of (tagCounts q) (to_string t) of
                                  None \<Rightarrow> 0 | Some v \<Rightarrow> v))
                   + int (count_list (map to_string tgs) (to_string t)))))"
    using dom by blast
  then show ?thesis
    unfolding l by (simp add: foldl_register_tag get_stat_foldl_incrementStat)
next
  case False
  with assms have l: "learn db tgs dmn now =
      (Rejected DataError,
       db\<lparr>tags := foldl (register_tag (tags db) now) (tags db) (takeWhile valid_key tgs)\<rparr>)"
    by (simp add: learn_def)
  show ?thesis
    unfolding l by (simp add: foldl_register_tag)
qed

theorem learn_all_writes_or_leading_tags_witness:
  "[JStr ''pasta'', JStr ''tomaat''] \<noteq> []
   \<and> fst (learn empty_store [JStr ''pasta'', JStr ''tomaat''] (Some ''ah.nl'') 0) = Resolved
   \<and> tags (snd (learn empty_store [JStr ''pasta'', JStr ''tomaat''] (Some ''ah.nl'') 0))
        (JStr ''tomaat'')
       = Some \<lparr>name = JStr ''tomaat'', created = 0, parent = JNull, color = JNull\<rparr>
   \<and> get_stat (tag_stats (snd (learn empty_store [JStr ''pasta'', JStr ''tomaat'']
        (Some ''ah.nl'') 0))) ''pasta_tomaat''
       = Some \<lparr>pair = ''pasta_tomaat'', count = 1, lastSeen = 0\<rparr>
   \<and> (\<exists>p. domain_stats (snd (learn empty_store [JStr ''pasta'', JStr ''tomaat'']
        (Some ''ah.nl'') 0)) ''ah.nl'' = Some p
        \<and> map_of (tagCounts p) ''tomaat'' = Some 1)
   \<and> [JStr ''pasta'', JNull] \<noteq> []
   \<and> fst (learn empty_store [JStr ''pasta'', JNull] (Some ''ah.nl'') 0) \<noteq> Resolved
   \<and> tag_stats (snd (learn empty_store [JStr ''pasta'', JNull] (Some ''ah.nl'') 0))
       = tag_stats empty_store
   \<and> domain_stats (snd (learn empty_store [JStr ''pasta'', JNull] (Some ''ah.nl'') 0))
       = domain_stats empty_store"
proof -
  have n1: "[JStr ''pasta'', JStr ''tomaat''] \<noteq> []" by simp
  have r1: "fst (learn empty_store [JStr ''pasta'', JStr ''tomaat''] (Some ''ah.nl'') 0)
      = Resolved"
    by (simp add: learn_def)
  have n2: "[JStr ''pasta'', JNull] \<noteq> []" by simp
  have r2: "fst (learn empty_store [JStr ''pasta'', JNull] (Some ''ah.nl'') 0) \<noteq> Resolved"
    by (simp add: learn_def)
  note all = learn_all_writes_or_leading_tags [OF n1, of empty_store "Some ''ah.nl''" 0,
      THEN conjunct1, rule_format, OF r1]
  note part = learn_all_writes_or_leading_tags [OF n2, of empty_store "Some ''ah.nl''" 0,
      THEN conjunct2, rule_format, OF r2]
  from all have t: "tags (snd (learn empty_store [JStr ''pasta'', JStr ''tomaat'']
        (Some ''ah.nl'') 0)) (JStr ''tomaat'')
       = Some \<lparr>name = JStr ''tomaat'', created = 0, parent = JNull, color = JNull\<rparr>"
    by (simp add: empty_store_def)
  from all have k: "get_stat (tag_stats (snd (learn empty_store [JStr ''pasta'', JStr ''tomaat'']
        (Some ''ah.nl'') 0))) ''pasta_tomaat''
       = Some \<lparr>pair = ''pasta_tomaat'', count = 1, lastSeen = 0\<rparr>"
    by (simp add: empty_store_def getPairKey_def sort2_def)
  from all obtain p where p: "domain_stats (snd (learn empty_store
        [JStr ''pasta'', JStr ''tomaat''] (Some ''ah.nl'') 0)) ''ah.nl'' = Some p"
    and c: "\<forall>t\<in>set [JStr ''pasta'', JStr ''tomaat''].
        to_string t \<notin> set object_prototype_names \<longrightarrow>
          map_of (tagCounts p) (to_string t) =
            Some ((case domain_stats empty_store ''ah.nl'' of
                     None \<Rightarrow> 0
                   | Some q \<Rightarrow> (case map_of (tagCounts q) (to_string t) of
                                 None \<Rightarrow> 0 | Some v \<Rightarrow> v))
                  + int (count_list (map to_string [JStr ''pasta'', JStr ''tomaat''])
                      (to_string t)))"
    by blast
  from c have "map_of (tagCounts p) ''tomaat'' = Some 1"
    by (simp add: object_prototype_names_def empty_store_def)
  with p have d: "\<exists>p. domain_stats (snd (learn empty_store [JStr ''pasta'', JStr ''tomaat'']
        (Some ''ah.nl'') 0)) ''ah.nl'' = Some p
        \<and> map_of (tagCounts p) ''tomaat'' = Some 1"
    by blast
  from n1 r1 t k d n2 r2 part show ?thesis by blast
qed

text \<open>C3 as stated fails on \<^verbatim>\<open>learn(['pasta', null])\<close>: the call is rejected, and the tag
  \<^verbatim>\<open>pasta\<close>, which the empty store did not have, is registered.\<close>

theorem learn_partial_on_rejection:
  "fst (learn empty_store [JStr ''pasta'', JNull] None 0) = Rejected DataError
   \<and> tags empty_store (JStr ''pasta'') = None
   \<and> tags (snd (learn empty_store [JStr ''pasta'', JNull] None 0)) (JStr ''pasta'')
       = Some \<lparr>name = JStr ''pasta'', created = 0, parent = JNull, color = JNull\<rparr>"
  by (simp add: learn_eval)

end
